theory Spec2Isabelle
  imports Main
begin

section \<open>The user service of Kdl-backend\<close>

text \<open>
  The development embeds \<^verbatim>\<open>UserService\<close> (user.service.ts) together with the
  pagination DTO it is called with. The service is a class over three collaborators:
  the configuration flag \<^verbatim>\<open>DATABASE_ENABLED\<close>, a TypeORM repository of
  \<^verbatim>\<open>UserEntity\<close> and the bcrypt library. The repository is a table held in an
  explicit state, every method takes the state and returns its result together with
  the state it leaves behind, and every exception is a value.
\<close>

subsection \<open>Exceptions\<close>

text \<open>
  The service throws three NestJS exception classes. The specification groups them by
  message into error kinds, and the model uses the kinds:
  \<^item> \<open>FeatureDisabled\<close>: \<^verbatim>\<open>BadRequestException('Database functionality is disabled')\<close>;
  \<^item> \<open>DuplicateEmail\<close>: \<^verbatim>\<open>BadRequestException('User with this email already exists')\<close>
    and \<^verbatim>\<open>BadRequestException('Email is already in use')\<close>;
  \<^item> \<open>NotFound\<close>: \<^verbatim>\<open>NotFoundException\<close>;
  \<^item> \<open>UnauthorizedLookup\<close>: \<^verbatim>\<open>UnauthorizedException\<close>;
  \<^item> \<open>OperationFailed\<close>: the \<^verbatim>\<open>BadRequestException('Failed to ...')\<close> that every
    \<^verbatim>\<open>catch\<close> block raises for an exception of any other class.
\<close>

datatype error = FeatureDisabled | DuplicateEmail | NotFound | UnauthorizedLookup | OperationFailed

subsection \<open>bcrypt\<close>

text \<open>
  bcrypt is a library, not code of the repository. Its output is kept symbolic: a
  string held by the service is either text as the caller wrote it (\<open>Raw\<close>) or the
  result of hashing under a salt (\<open>Bcrypt\<close>, which records the cost factor of the salt,
  the random bytes of the salt and the bytes that were hashed). bcrypt hashes the first
  72 bytes of its input and ignores the rest, so the bytes recorded are that prefix, and
  two inputs with the same first 72 bytes have the same hash under a salt and verify
  against each other's hashes. On the prefix the hash is taken to be free of collisions.
  The random bytes that \<^verbatim>\<open>genSalt\<close> draws are an argument \<open>rnd\<close> of every method
  that calls it: the model does not choose them.
\<close>

datatype bstring = Raw string | Bcrypt nat nat string

type_synonym salt = "nat \<times> nat"

definition genSalt :: "nat \<Rightarrow> nat \<Rightarrow> salt" where
  \<comment> \<open>\<^verbatim>\<open>bcrypt.genSalt(rounds)\<close>; \<^verbatim>\<open>bcrypt.genSalt()\<close> is \<open>genSalt default_rounds\<close>.\<close>
  "genSalt rounds rnd = (rounds, rnd)"

definition default_rounds :: nat where
  "default_rounds = 10"

definition bcrypt_hash :: "string \<Rightarrow> salt \<Rightarrow> bstring" where
  \<comment> \<open>\<^verbatim>\<open>bcrypt.hash(data, salt)\<close> with a salt string: only 72 bytes of \<open>data\<close> count.\<close>
  "bcrypt_hash data s = Bcrypt (fst s) (snd s) (take 72 data)"

definition bcrypt_hash_rounds :: "string \<Rightarrow> nat \<Rightarrow> nat \<Rightarrow> bstring" where
  \<comment> \<open>\<^verbatim>\<open>bcrypt.hash(data, rounds)\<close> with a number: the library generates the salt.\<close>
  "bcrypt_hash_rounds data rounds rnd = bcrypt_hash data (genSalt rounds rnd)"


definition truthy :: "string \<Rightarrow> bool" where
  \<comment> \<open>JavaScript's truthiness of a string: every string but the empty one.\<close>
  "truthy s = (s \<noteq> [])"

subsection \<open>Data transfer objects and the entity\<close>

text \<open>
  Modelled from the spec: the files create-user.dto.ts, update-user.dto.ts and
  user.entity.ts are not among the sources. The creation input is
  \<open>{userName, email, password}\<close>, the patch is \<open>{userName?, email?, password?}\<close> (an
  absent property is \<open>None\<close>), and the entity has the columns \<open>id\<close>, \<open>userName\<close>,
  \<open>email\<close>, \<open>password\<close>, \<open>refreshToken\<close> (nullable; \<open>None\<close> is null) and \<open>createdAt\<close>.
  An entity object is also what the service returns, after
  \<^verbatim>\<open>delete user.password\<close>: its \<open>password\<close> is \<open>None\<close> once the property is deleted.
  The column \<open>id\<close> is called \<open>id'\<close> here, \<open>id\<close> being the identity function of HOL.
\<close>

record CreateUserDto =
  userName :: string
  email :: string
  password :: string

record UpdateUserDto =
  userName :: "string option"
  email :: "string option"
  password :: "string option"

record UserEntity =
  id' :: int
  userName :: string
  email :: string
  password :: "bstring option"
  refreshToken :: "bstring option"
  createdAt :: nat

text \<open>
  Modelled from the spec: the validation that create-user.dto.ts and
  update-user.dto.ts declare is not among the sources. Of it the spec says that an
  email is a syntactically valid email, that a password meets a minimum length policy,
  that a patch accepts the same fields, all optional, and that a request failing this
  is rejected before it reaches the service. \<open>isEmail\<close> asks for a local part, an
  \<open>@\<close> and something after it; the minimum length itself is in the missing file and is
  a parameter. Nothing below uses more of either than that the empty string is neither
  an email nor, under a policy with a positive minimum, a password.
\<close>

definition isEmail :: "string \<Rightarrow> bool" where
  "isEmail s =
     (takeWhile (\<lambda>c. c \<noteq> CHR ''@'') s \<noteq> [] \<and> 1 < length (dropWhile (\<lambda>c. c \<noteq> CHR ''@'') s))"

definition valid_update :: "nat \<Rightarrow> UpdateUserDto \<Rightarrow> bool" where
  "valid_update minLength updateUserDto =
     ((case UpdateUserDto.email updateUserDto of None \<Rightarrow> True | Some e \<Rightarrow> isEmail e)
      \<and> (case UpdateUserDto.password updateUserDto of
            None \<Rightarrow> True | Some p \<Rightarrow> minLength \<le> length p))"

text \<open>
  \<^verbatim>\<open>PaginationDto\<close> (pagination.dto.ts) declares exactly two properties, \<open>page\<close> and
  \<open>limit\<close>, both optional. \<open>get_prop\<close> reads a property of such an object by name, as a
  destructuring pattern does: a name the class does not declare is \<open>undefined\<close> (\<open>None\<close>).
\<close>

record PaginationDto =
  page :: "int option"
  limit :: "int option"

definition get_prop :: "PaginationDto \<Rightarrow> string \<Rightarrow> int option" where
  "get_prop dto name =
     (if name = ''page'' then PaginationDto.page dto
      else if name = ''limit'' then PaginationDto.limit dto
      else None)"

record Page =
  items :: "UserEntity list"
  total :: int
  page :: int
  pageSize :: int
  totalPages :: int

subsection \<open>The repository\<close>

text \<open>
  The state of the service: the flag read by the constructor, the table behind
  \<^verbatim>\<open>userRepository\<close>, the next value of the \<open>id\<close> sequence and the clock of the
  database, which stamps \<open>createdAt\<close>. The flag and the repository are independent
  members of the class. The repository calls are the documented behaviour of TypeORM on
  one table; none of them fails, except \<open>findAndCount\<close> on a negative offset, and the
  table keeps no constraint of its own on \<open>email\<close>: what holds of the emails is what the
  methods of the service establish.
\<close>

record state =
  databaseEnabled :: bool
  table :: "UserEntity list"
  nextId :: int
  clock :: nat

definition findOneBy_email :: "string \<Rightarrow> UserEntity list \<Rightarrow> UserEntity option" where
  \<comment> \<open>\<^verbatim>\<open>userRepository.findOneBy({ email })\<close>\<close>
  "findOneBy_email e rows = find (\<lambda>u. UserEntity.email u = e) rows"

definition findOneBy_id :: "int \<Rightarrow> UserEntity list \<Rightarrow> UserEntity option" where
  \<comment> \<open>\<^verbatim>\<open>userRepository.findOneBy({ id })\<close>\<close>
  "findOneBy_id i rows = find (\<lambda>u. id' u = i) rows"

definition newest_first :: "UserEntity list \<Rightarrow> UserEntity list" where
  \<comment> \<open>\<^verbatim>\<open>order: { createdAt: 'DESC' }\<close>\<close>
  "newest_first rows = rev (sort_key createdAt rows)"

definition findAndCount :: "UserEntity list \<Rightarrow> int \<Rightarrow> int \<Rightarrow> (UserEntity list \<times> int) option" where
  \<comment> \<open>\<^verbatim>\<open>userRepository.findAndCount({ skip, take, order })\<close>; the database rejects a
      negative offset or limit, which is \<open>None\<close>.\<close>
  "findAndCount rows skip tk =
     (if skip < 0 \<or> tk < 0 then None
      else Some (take (nat tk) (drop (nat skip) (newest_first rows)), int (length rows)))"

definition ceil_div :: "int \<Rightarrow> int \<Rightarrow> int" where
  \<comment> \<open>\<^verbatim>\<open>Math.ceil(total / pageSize)\<close> on integers, for a divisor that is not zero.\<close>
  "ceil_div a b = - ((- a) div b)"

definition save_new :: "state \<Rightarrow> string \<Rightarrow> string \<Rightarrow> bstring \<Rightarrow> UserEntity \<times> state" where
  \<comment> \<open>\<^verbatim>\<open>userRepository.save(user)\<close> on an entity without id: INSERT. The entity comes
      back with the generated columns filled in.\<close>
  "save_new st name mail hash =
     (let user = \<lparr> id' = nextId st, userName = name, email = mail, password = Some hash,
                   refreshToken = None, createdAt = clock st \<rparr>
      in (user, st\<lparr> table := table st @ [user], nextId := nextId st + 1,
                   clock := clock st + 1 \<rparr>))"

definition merge_row :: "UserEntity \<Rightarrow> UserEntity \<Rightarrow> UserEntity" where
  \<comment> \<open>The row after an UPDATE from an object. TypeORM's \<open>save\<close> is a partial update:
      it skips every property that is undefined, here the deleted \<open>password\<close>.\<close>
  "merge_row obj row =
     row\<lparr> userName := UserEntity.userName obj, email := UserEntity.email obj,
          password := (case UserEntity.password obj of Some h \<Rightarrow> Some h
                       | None \<Rightarrow> UserEntity.password row),
          refreshToken := refreshToken obj, createdAt := createdAt obj \<rparr>"

definition save :: "state \<Rightarrow> UserEntity \<Rightarrow> UserEntity \<times> state" where
  \<comment> \<open>\<^verbatim>\<open>userRepository.save(obj)\<close> on an object whose id is in the table: UPDATE of
      the row with that id. The service calls it only after \<open>findById\<close> found the id.\<close>
  "save st obj =
     (obj, st\<lparr> table := map (\<lambda>row. if id' row = id' obj then merge_row obj row else row)
                             (table st) \<rparr>)"

definition delete_id :: "state \<Rightarrow> int \<Rightarrow> nat \<times> state" where
  \<comment> \<open>\<^verbatim>\<open>userRepository.delete(id)\<close>: the number of rows affected and the new state.\<close>
  "delete_id st i =
     (length (filter (\<lambda>u. id' u = i) (table st)),
      st\<lparr> table := filter (\<lambda>u. id' u \<noteq> i) (table st) \<rparr>)"

definition update_refreshToken :: "state \<Rightarrow> int \<Rightarrow> bstring option \<Rightarrow> nat \<times> state" where
  \<comment> \<open>\<^verbatim>\<open>userRepository.update({ id }, { refreshToken })\<close>: rows affected and new state.\<close>
  "update_refreshToken st i tok =
     (length (filter (\<lambda>u. id' u = i) (table st)),
      st\<lparr> table := map (\<lambda>u. if id' u = i then u\<lparr> refreshToken := tok \<rparr> else u) (table st) \<rparr>)"

subsection \<open>The service\<close>

definition create :: "state \<Rightarrow> nat \<Rightarrow> CreateUserDto \<Rightarrow> (error + UserEntity) \<times> state" where
  "create st rnd userDto =
     (if \<not> databaseEnabled st then (Inl FeatureDisabled, st)
      else case findOneBy_email (CreateUserDto.email userDto) (table st) of
        Some existingUser \<Rightarrow> (Inl DuplicateEmail, st)
      | None \<Rightarrow>
          (let salt = genSalt default_rounds rnd;
               hash = bcrypt_hash (CreateUserDto.password userDto) salt;
               (savedUser, st') = save_new st (CreateUserDto.userName userDto)
                                    (CreateUserDto.email userDto) hash
           in (Inr (savedUser\<lparr> password := None \<rparr>), st')))"

definition findAll :: "state \<Rightarrow> PaginationDto \<Rightarrow> (error + Page) \<times> state" where
  \<comment> \<open>The locals \<open>page\<close>, \<open>pageSize\<close>, \<open>total\<close> of the source carry a prime here.\<close>
  "findAll st paginationDto =
     (let page' = (case get_prop paginationDto ''page'' of Some p \<Rightarrow> p | None \<Rightarrow> 1);
          pageSize' = (case get_prop paginationDto ''pageSize'' of Some s \<Rightarrow> s | None \<Rightarrow> 10);
          skip = (page' - 1) * pageSize'
      in case findAndCount (table st) skip pageSize' of
           None \<Rightarrow> (Inl OperationFailed, st)
         | Some (users, total') \<Rightarrow>
             (Inr \<lparr> items = map (\<lambda>user. user\<lparr> password := None \<rparr>) users,
                    total = total', page = page', pageSize = pageSize',
                    totalPages = ceil_div total' pageSize' \<rparr>, st))"

definition findOne :: "state \<Rightarrow> string \<Rightarrow> (error + UserEntity) \<times> state" where
  "findOne st mail =
     (case findOneBy_email mail (table st) of
        None \<Rightarrow> (Inl UnauthorizedLookup, st)
      | Some user \<Rightarrow> (Inr user, st))"

definition findById :: "state \<Rightarrow> int \<Rightarrow> (error + UserEntity) \<times> state" where
  "findById st i =
     (case findOneBy_id i (table st) of
        None \<Rightarrow> (Inl NotFound, st)
      | Some user \<Rightarrow> (Inr (user\<lparr> password := None \<rparr>), st))"

definition email_taken :: "state \<Rightarrow> UserEntity \<Rightarrow> UpdateUserDto \<Rightarrow> bool" where
  \<comment> \<open>The two nested conditions of \<open>update\<close> under which it throws 'Email is already in use'.\<close>
  "email_taken st user updateUserDto =
     (case UpdateUserDto.email updateUserDto of
        None \<Rightarrow> False
      | Some e \<Rightarrow> truthy e \<and> e \<noteq> UserEntity.email user
                  \<and> findOneBy_email e (table st) \<noteq> None)"

definition hash_patch_password :: "nat \<Rightarrow> UpdateUserDto \<Rightarrow> bstring option" where
  \<comment> \<open>\<^verbatim>\<open>if (updateUserDto.password) updateUserDto.password = await bcrypt.hash(...)\<close>:
      the password property of the patch afterwards.\<close>
  "hash_patch_password rnd updateUserDto =
     (case UpdateUserDto.password updateUserDto of
        None \<Rightarrow> None
      | Some p \<Rightarrow> if truthy p then Some (bcrypt_hash p (genSalt default_rounds rnd))
                  else Some (Raw p))"

definition spread :: "UserEntity \<Rightarrow> UpdateUserDto \<Rightarrow> bstring option \<Rightarrow> UserEntity" where
  \<comment> \<open>\<^verbatim>\<open>{ ...user, ...updateUserDto }\<close>, the patch's password being the one given.\<close>
  "spread user updateUserDto pw =
     user\<lparr> userName := (case UpdateUserDto.userName updateUserDto of
                          Some n \<Rightarrow> n | None \<Rightarrow> UserEntity.userName user),
           email := (case UpdateUserDto.email updateUserDto of
                       Some e \<Rightarrow> e | None \<Rightarrow> UserEntity.email user),
           password := (case pw of Some h \<Rightarrow> Some h | None \<Rightarrow> UserEntity.password user) \<rparr>"

definition update :: "state \<Rightarrow> nat \<Rightarrow> int \<Rightarrow> UpdateUserDto \<Rightarrow> (error + UserEntity) \<times> state" where
  "update st rnd i updateUserDto =
     (case findById st i of
        (Inl e, st1) \<Rightarrow> (Inl e, st1)
      | (Inr user, st1) \<Rightarrow>
          if email_taken st1 user updateUserDto then (Inl DuplicateEmail, st1)
          else (let pw = hash_patch_password rnd updateUserDto;
                    (updatedUser, st2) = save st1 (spread user updateUserDto pw)
                in (Inr (updatedUser\<lparr> password := None \<rparr>), st2)))"

definition remove :: "state \<Rightarrow> int \<Rightarrow> (error + unit) \<times> state" where
  "remove st i =
     (let (affected, st') = delete_id st i
      in if affected = 0 then (Inl NotFound, st') else (Inr (), st'))"

definition updateRefreshToken :: "state \<Rightarrow> nat \<Rightarrow> int \<Rightarrow> string \<Rightarrow> (error + unit) \<times> state" where
  "updateRefreshToken st rnd userId tok =
     (let hashedRefreshToken = bcrypt_hash_rounds tok 10 rnd;
          (affected, st') = update_refreshToken st userId (Some hashedRefreshToken)
      in (Inr (), st'))"

definition removeRefreshToken :: "state \<Rightarrow> int \<Rightarrow> (error + unit) \<times> state" where
  "removeRefreshToken st userId =
     (let (affected, st') = update_refreshToken st userId None
      in (Inr (), st'))"

subsection \<open>Auxiliary definitions\<close>

text \<open>
  Two values that the methods compute on the way, named so that lemmas can speak of
  them, and the two invariants of the table: \<open>id\<close> is its primary key, generated from a
  sequence that is ahead of every stored id, and emails are unique.
\<close>

definition page_of :: "PaginationDto \<Rightarrow> int" where
  \<comment> \<open>The value of the local \<open>page\<close> of \<open>findAll\<close>: the property, or its default 1.\<close>
  "page_of paginationDto = (case PaginationDto.page paginationDto of Some p \<Rightarrow> p | None \<Rightarrow> 1)"

definition merged :: "nat \<Rightarrow> UserEntity \<Rightarrow> UpdateUserDto \<Rightarrow> UserEntity" where
  \<comment> \<open>The object that \<open>update\<close> hands to \<open>save\<close> when \<open>findOneBy\<close> returned \<open>u\<close>.\<close>
  "merged rnd u updateUserDto =
     spread (u\<lparr> password := None \<rparr>) updateUserDto (hash_patch_password rnd updateUserDto)"

definition primary_key :: "state \<Rightarrow> bool" where
  \<comment> \<open>No two rows share an id, and the sequence is ahead of every id in the table.\<close>
  "primary_key st =
     (distinct (map id' (table st)) \<and> list_all (\<lambda>u. id' u < nextId st) (table st))"

definition unique_emails :: "state \<Rightarrow> bool" where
  \<comment> \<open>No two rows share an email.\<close>
  "unique_emails st = distinct (map UserEntity.email (table st))"

subsection \<open>Example states and inputs\<close>

text \<open>
  Two stored users, alice with a refresh token and bob without; the same table with
  persistence disabled; a table of six users; and the table that \<open>create\<close> leaves
  behind on the empty table for a user whose password has 73 bytes.
\<close>

definition alice :: UserEntity where
  "alice = \<lparr> id' = 1, userName = ''alice'', email = ''alice@kdl.test'',
             password = Some (Bcrypt 10 11 ''alice-pw''),
             refreshToken = Some (Bcrypt 10 12 ''alice-token''), createdAt = 0 \<rparr>"

definition bob :: UserEntity where
  "bob = \<lparr> id' = 2, userName = ''bob'', email = ''bob@kdl.test'',
           password = Some (Bcrypt 10 21 ''bob-pw''), refreshToken = None, createdAt = 1 \<rparr>"

definition two_users :: state where
  "two_users = \<lparr> databaseEnabled = True, table = [alice, bob], nextId = 3, clock = 2 \<rparr>"

definition numbered_user :: "nat \<Rightarrow> UserEntity" where
  "numbered_user n = \<lparr> id' = int n, userName = ''user'', email = replicate n CHR ''u'' @ ''@kdl.test'',
                        password = Some (Bcrypt 10 n ''secret''), refreshToken = None, createdAt = n \<rparr>"

definition six_users :: state where
  "six_users = \<lparr> databaseEnabled = True, table = map numbered_user [1..<7], nextId = 7, clock = 7 \<rparr>"






definition disabled :: state where
  "disabled = two_users\<lparr> databaseEnabled := False \<rparr>"

definition carol_dto :: CreateUserDto where
  "carol_dto = \<lparr> CreateUserDto.userName = ''carol'', email = ''carol@kdl.test'',
                  password = ''carol-pw'' \<rparr>"

definition alice_again :: CreateUserDto where
  "alice_again = \<lparr> CreateUserDto.userName = ''alice2'', email = ''alice@kdl.test'',
                    password = ''other-pw'' \<rparr>"

definition rename_patch :: UpdateUserDto where
  "rename_patch = \<lparr> UpdateUserDto.userName = Some ''alicia'', email = None, password = None \<rparr>"

definition email_patch :: UpdateUserDto where
  "email_patch = \<lparr> UpdateUserDto.userName = None, email = Some ''alice@kdl.example'', password = None \<rparr>"

definition password_patch :: "string \<Rightarrow> UpdateUserDto" where
  "password_patch newpass = \<lparr> UpdateUserDto.userName = None, email = None, password = Some newpass \<rparr>"

definition first_page :: PaginationDto where
  "first_page = \<lparr> PaginationDto.page = Some 1, limit = Some 5 \<rparr>"

section \<open>Properties of the repository and of each method\<close>

subsection \<open>Lookups, delete and the refresh-token update\<close>

lemma findOneBy_id_None: "findOneBy_id i rows = None \<longleftrightarrow> (\<forall>u\<in>set rows. id' u \<noteq> i)"
  by (auto simp: findOneBy_id_def find_None_iff)

lemma findOneBy_id_Some: "findOneBy_id i rows = Some u \<Longrightarrow> u \<in> set rows \<and> id' u = i"
  by (auto simp: findOneBy_id_def find_Some_iff)

lemma findOneBy_email_None: "findOneBy_email e rows = None \<longleftrightarrow> (\<forall>u\<in>set rows. UserEntity.email u \<noteq> e)"
  by (auto simp: findOneBy_email_def find_None_iff)

lemma find_map_id:
  "find (\<lambda>u. id' u = i) (map (\<lambda>u. if id' u = i then f u else u) rows)
     = map_option f (find (\<lambda>u. id' u = i) rows)" if "\<And>u. id' (f u) = id' u"
  using that by (induction rows) auto

lemma delete_id_affected: "fst (delete_id st i) = 0 \<longleftrightarrow> findOneBy_id i (table st) = None"
  by (simp add: delete_id_def findOneBy_id_None filter_empty_conv)

lemma delete_id_none: "findOneBy_id i (table st) = None \<Longrightarrow> snd (delete_id st i) = st"
proof -
  assume "findOneBy_id i (table st) = None"
  then have "filter (\<lambda>u. id' u \<noteq> i) (table st) = table st"
    by (simp add: findOneBy_id_None filter_id_conv)
  then show ?thesis by (simp add: delete_id_def)
qed

lemma delete_id_gone: "findOneBy_id i (table (snd (delete_id st i))) = None"
  by (simp add: delete_id_def findOneBy_id_None)

lemma remove_NotFound_iff: "fst (remove st i) = Inl NotFound \<longleftrightarrow> fst (delete_id st i) = 0"
  by (cases "delete_id st i") (simp add: remove_def)

lemma remove_state: "snd (remove st i) = snd (delete_id st i)"
  by (cases "delete_id st i") (simp add: remove_def)

lemma update_refreshToken_table:
  "table (snd (update_refreshToken st i tok)) =
     map (\<lambda>u. if id' u = i then u\<lparr> refreshToken := tok \<rparr> else u) (table st)"
  by (simp add: update_refreshToken_def)

lemma update_refreshToken_affected:
  "fst (update_refreshToken st i tok) = 0 \<longleftrightarrow> findOneBy_id i (table st) = None"
  by (simp add: update_refreshToken_def findOneBy_id_None filter_empty_conv)

lemma update_refreshToken_none:
  assumes "findOneBy_id i (table st) = None"
  shows "snd (update_refreshToken st i tok) = st"
proof -
  from assms have "map (\<lambda>u. if id' u = i then u\<lparr> refreshToken := tok \<rparr> else u) (table st) = table st"
    by (intro map_idI) (auto simp: findOneBy_id_None)
  then show ?thesis by (simp add: update_refreshToken_def)
qed

lemma update_refreshToken_found:
  "findOneBy_id i (table (snd (update_refreshToken st i tok)))
     = map_option (\<lambda>u. u\<lparr> refreshToken := tok \<rparr>) (findOneBy_id i (table st))"
  by (simp add: update_refreshToken_table findOneBy_id_def find_map_id)

lemma update_refreshToken_all:
  assumes "u \<in> set (table (snd (update_refreshToken st i tok)))" and "id' u = i"
  shows "refreshToken u = tok"
proof -
  from assms(1)
  have "u \<in> (\<lambda>u. if id' u = i then u\<lparr> refreshToken := tok \<rparr> else u) ` set (table st)"
    by (simp only: update_refreshToken_table set_map)
  then obtain v where v: "v \<in> set (table st)"
      and u: "u = (if id' v = i then v\<lparr> refreshToken := tok \<rparr> else v)"
    by blast
  show ?thesis
  proof (cases "id' v = i")
    case True
    with u show ?thesis by simp
  next
    case False
    with u assms(2) show ?thesis by simp
  qed
qed

lemma updateRefreshToken_state:
  "snd (updateRefreshToken st rnd i tok) = snd (update_refreshToken st i (Some (bcrypt_hash_rounds tok 10 rnd)))"
  by (cases "update_refreshToken st i (Some (bcrypt_hash_rounds tok 10 rnd))")
     (simp add: updateRefreshToken_def)

lemma removeRefreshToken_state:
  "snd (removeRefreshToken st i) = snd (update_refreshToken st i None)"
  by (cases "update_refreshToken st i None") (simp add: removeRefreshToken_def)

lemma updateRefreshToken_result: "fst (updateRefreshToken st rnd i tok) = Inr ()"
  by (cases "update_refreshToken st i (Some (bcrypt_hash_rounds tok 10 rnd))")
     (simp add: updateRefreshToken_def)

lemma removeRefreshToken_result: "fst (removeRefreshToken st i) = Inr ()"
  by (cases "update_refreshToken st i None") (simp add: removeRefreshToken_def)

subsection \<open>Saving\<close>

lemma save_new_table:
  "table (snd (save_new st name mail hash)) =
     table st @ [\<lparr> id' = nextId st, userName = name, email = mail, password = Some hash,
                    refreshToken = None, createdAt = clock st \<rparr>]"
  by (simp add: save_new_def Let_def)

lemma save_new_entity:
  "fst (save_new st name mail hash) =
     \<lparr> id' = nextId st, userName = name, email = mail, password = Some hash,
       refreshToken = None, createdAt = clock st \<rparr>"
  by (simp add: save_new_def Let_def)

lemma save_new_flag: "databaseEnabled (snd (save_new st name mail hash)) = databaseEnabled st"
  by (simp add: save_new_def Let_def)

lemma id_merge_row [simp]: "id' (merge_row obj row) = id' row"
  by (simp add: merge_row_def)

lemma merge_row_fields:
  "UserEntity.userName (merge_row obj row) = UserEntity.userName obj"
  "UserEntity.email (merge_row obj row) = UserEntity.email obj"
  "UserEntity.password (merge_row obj row) =
     (case UserEntity.password obj of Some h \<Rightarrow> Some h | None \<Rightarrow> UserEntity.password row)"
  "refreshToken (merge_row obj row) = refreshToken obj"
  "createdAt (merge_row obj row) = createdAt obj"
  by (simp_all add: merge_row_def)

lemma filter_map_other:
  "(\<And>x. k (f x) = k x)
   \<Longrightarrow> filter (\<lambda>x. k x \<noteq> i) (map (\<lambda>x. if k x = i then f x else x) xs) = filter (\<lambda>x. k x \<noteq> i) xs"
  by (induction xs) auto

lemma save_table:
  "table (snd (save st obj)) =
     map (\<lambda>row. if id' row = id' obj then merge_row obj row else row) (table st)"
  by (simp add: save_def)

lemma save_rest: "nextId (snd (save st obj)) = nextId st"
  "databaseEnabled (snd (save st obj)) = databaseEnabled st"
  "clock (snd (save st obj)) = clock st"
  by (simp_all add: save_def)

lemma save_found:
  "findOneBy_id (id' obj) (table (snd (save st obj)))
     = map_option (merge_row obj) (findOneBy_id (id' obj) (table st))"
  by (simp add: save_table findOneBy_id_def find_map_id)

lemma save_others:
  "filter (\<lambda>r. id' r \<noteq> id' obj) (table (snd (save st obj)))
     = filter (\<lambda>r. id' r \<noteq> id' obj) (table st)"
  by (simp add: save_table filter_map_other)

lemma save_ids: "map id' (table (snd (save st obj))) = map id' (table st)"
  by (simp add: save_table)

lemma save_emails:
  "map UserEntity.email (table (snd (save st obj)))
     = map (\<lambda>row. if id' row = id' obj then UserEntity.email obj else UserEntity.email row) (table st)"
  by (simp add: save_table merge_row_def)

subsection \<open>create, findById and findAll\<close>

lemma create_disabled:
  "\<not> databaseEnabled st \<Longrightarrow> create st rnd userDto = (Inl FeatureDisabled, st)"
  by (simp add: create_def)

lemma create_duplicate:
  "databaseEnabled st \<Longrightarrow> findOneBy_email (CreateUserDto.email userDto) (table st) \<noteq> None
   \<Longrightarrow> create st rnd userDto = (Inl DuplicateEmail, st)"
  by (auto simp: create_def)

lemma create_fresh:
  assumes "databaseEnabled st"
    and "findOneBy_email (CreateUserDto.email userDto) (table st) = None"
  shows "create st rnd userDto =
    (Inr (fst (save_new st (CreateUserDto.userName userDto) (CreateUserDto.email userDto)
                 (bcrypt_hash (CreateUserDto.password userDto) (genSalt default_rounds rnd)))
            \<lparr> password := None \<rparr>),
     snd (save_new st (CreateUserDto.userName userDto) (CreateUserDto.email userDto)
            (bcrypt_hash (CreateUserDto.password userDto) (genSalt default_rounds rnd))))"
  using assms by (simp add: create_def Let_def split: prod.splits)

lemma create_Inr:
  assumes "create st rnd userDto = (Inr v, st')"
  shows "databaseEnabled st \<and> findOneBy_email (CreateUserDto.email userDto) (table st) = None"
proof (cases "databaseEnabled st")
  case False
  with assms show ?thesis by (simp add: create_disabled)
next
  case True
  show ?thesis
  proof (cases "findOneBy_email (CreateUserDto.email userDto) (table st)")
    case None
    with True show ?thesis by simp
  next
    case (Some existingUser)
    with True assms show ?thesis by (simp add: create_duplicate)
  qed
qed

lemma create_no_password: "create st rnd userDto = (Inr v, st') \<Longrightarrow> UserEntity.password v = None"
  using create_Inr [of st rnd userDto v st'] by (auto simp: create_fresh)

lemma create_no_token: "create st rnd userDto = (Inr v, st') \<Longrightarrow> refreshToken v = None"
  using create_Inr [of st rnd userDto v st'] by (auto simp: create_fresh save_new_entity)

lemma findById_found:
  "findOneBy_id i (table st) = Some u \<Longrightarrow> findById st i = (Inr (u\<lparr> password := None \<rparr>), st)"
  by (simp add: findById_def)

lemma findById_missing:
  "findOneBy_id i (table st) = None \<Longrightarrow> findById st i = (Inl NotFound, st)"
  by (simp add: findById_def)

lemma findById_Inr:
  assumes "findById st i = (Inr v, st')"
  shows "\<exists>u. findOneBy_id i (table st) = Some u \<and> v = u\<lparr> password := None \<rparr> \<and> st' = st"
proof (cases "findOneBy_id i (table st)")
  case None
  with assms show ?thesis by (simp add: findById_missing)
next
  case (Some u)
  with assms show ?thesis by (auto simp: findById_found)
qed

lemma findById_no_password: "findById st i = (Inr v, st') \<Longrightarrow> UserEntity.password v = None"
  by (auto dest: findById_Inr)

lemma findById_token:
  assumes "findById st i = (Inr v, st')"
  shows "map_option refreshToken (findOneBy_id i (table st)) = Some (refreshToken v)"
  using findById_Inr [OF assms] by auto

lemma set_newest_first: "set (newest_first rows) = set rows"
  by (simp add: newest_first_def)

lemma length_newest_first: "length (newest_first rows) = length rows"
  by (simp add: newest_first_def)

lemma get_prop_pageSize: "get_prop paginationDto ''pageSize'' = None"
  by (simp add: get_prop_def)

lemma get_prop_page: "get_prop paginationDto ''page'' = PaginationDto.page paginationDto"
  by (simp add: get_prop_def)

lemma findAll_ok:
  assumes "1 \<le> page_of paginationDto"
  shows "findAll st paginationDto =
    (Inr \<lparr> items = map (\<lambda>user. user\<lparr> password := None \<rparr>)
                      (take 10 (drop (nat ((page_of paginationDto - 1) * 10)) (newest_first (table st)))),
            total = int (length (table st)), page = page_of paginationDto, pageSize = 10,
            totalPages = ceil_div (int (length (table st))) 10 \<rparr>, st)"
  using assms
  by (simp add: findAll_def get_prop_pageSize get_prop_page page_of_def findAndCount_def Let_def)

lemma findAll_failed:
  assumes "\<not> 1 \<le> page_of paginationDto"
  shows "findAll st paginationDto = (Inl OperationFailed, st)"
  using assms
  by (simp add: findAll_def get_prop_pageSize get_prop_page page_of_def findAndCount_def Let_def)

lemma findAll_Inr:
  assumes "findAll st paginationDto = (Inr pg, st')"
  shows "1 \<le> page_of paginationDto \<and> st' = st \<and>
    pg = \<lparr> items = map (\<lambda>user. user\<lparr> password := None \<rparr>)
                      (take 10 (drop (nat ((page_of paginationDto - 1) * 10)) (newest_first (table st)))),
            total = int (length (table st)), page = page_of paginationDto, pageSize = 10,
            totalPages = ceil_div (int (length (table st))) 10 \<rparr>"
proof (cases "1 \<le> page_of paginationDto")
  case True
  with assms show ?thesis by (auto simp: findAll_ok)
next
  case False
  with assms show ?thesis by (simp add: findAll_failed)
qed

lemma findAll_items_stored:
  assumes "findAll st paginationDto = (Inr pg, st')" and "x \<in> set (items pg)"
  shows "\<exists>u\<in>set (table st). x = u\<lparr> password := None \<rparr>"
proof -
  from assms(1) have "items pg = map (\<lambda>user. user\<lparr> password := None \<rparr>)
      (take 10 (drop (nat ((page_of paginationDto - 1) * 10)) (newest_first (table st))))"
    by (auto dest: findAll_Inr)
  with assms(2) obtain u where "x = u\<lparr> password := None \<rparr>"
    and "u \<in> set (take 10 (drop (nat ((page_of paginationDto - 1) * 10)) (newest_first (table st))))"
    by (simp only: set_map) blast
  moreover from this(2) have "u \<in> set (table st)"
    using set_newest_first by (blast dest: in_set_takeD in_set_dropD)
  ultimately show ?thesis by blast
qed

lemma findAll_no_password:
  assumes "findAll st paginationDto = (Inr pg, st')" and "x \<in> set (items pg)"
  shows "UserEntity.password x = None"
  using findAll_items_stored [OF assms] by auto

lemma findAll_limit_irrelevant:
  "findAll st (paginationDto\<lparr> limit := l \<rparr>) = findAll st paginationDto"
  by (simp add: findAll_def get_prop_def)

lemma findAll_page_size:
  assumes "findAll st paginationDto = (Inr pg, st')"
  shows "pageSize pg = 10" and "length (items pg) \<le> 10"
    and "totalPages pg = ceil_div (total pg) 10"
  using findAll_Inr [OF assms] by auto

subsection \<open>update\<close>

lemma email_taken_strip [simp]:
  "email_taken st (u\<lparr> password := pw \<rparr>) updateUserDto = email_taken st u updateUserDto"
  by (simp add: email_taken_def split: option.splits)

lemma merged_token [simp]: "refreshToken (merged rnd u updateUserDto) = refreshToken u"
  by (simp add: merged_def spread_def)

lemma merged_id [simp]: "id' (merged rnd u updateUserDto) = id' u"
  by (simp add: merged_def spread_def)

lemma merged_createdAt [simp]: "createdAt (merged rnd u updateUserDto) = createdAt u"
  by (simp add: merged_def spread_def)

lemma merged_email:
  "UserEntity.email (merged rnd u updateUserDto) =
     (case UpdateUserDto.email updateUserDto of None \<Rightarrow> UserEntity.email u | Some e \<Rightarrow> e)"
  by (simp add: merged_def spread_def split: option.splits)

lemma merged_userName:
  "UserEntity.userName (merged rnd u updateUserDto) =
     (case UpdateUserDto.userName updateUserDto of None \<Rightarrow> UserEntity.userName u | Some n \<Rightarrow> n)"
  by (simp add: merged_def spread_def split: option.splits)

lemma merged_password:
  "UserEntity.password (merged rnd u updateUserDto) = hash_patch_password rnd updateUserDto"
  by (simp add: merged_def spread_def split: option.splits)

lemma update_missing:
  "findOneBy_id i (table st) = None \<Longrightarrow> update st rnd i updateUserDto = (Inl NotFound, st)"
  by (simp add: update_def findById_missing)

lemma update_taken:
  "findOneBy_id i (table st) = Some u \<Longrightarrow> email_taken st u updateUserDto
   \<Longrightarrow> update st rnd i updateUserDto = (Inl DuplicateEmail, st)"
  by (simp add: update_def findById_found)

lemma update_saved:
  assumes "findOneBy_id i (table st) = Some u" and "\<not> email_taken st u updateUserDto"
  shows "update st rnd i updateUserDto =
    (Inr (merged rnd u updateUserDto\<lparr> password := None \<rparr>),
     snd (save st (merged rnd u updateUserDto)))"
  using assms by (simp add: update_def findById_found merged_def save_def Let_def)

lemma update_Inr:
  assumes "update st rnd i updateUserDto = (Inr v, st')"
  shows "\<exists>u. findOneBy_id i (table st) = Some u \<and> \<not> email_taken st u updateUserDto
           \<and> v = merged rnd u updateUserDto\<lparr> password := None \<rparr>
           \<and> st' = snd (save st (merged rnd u updateUserDto))"
proof (cases "findOneBy_id i (table st)")
  case None
  with assms show ?thesis by (simp add: update_missing)
next
  case (Some u)
  show ?thesis
  proof (cases "email_taken st u updateUserDto")
    case True
    with Some assms show ?thesis by (simp add: update_taken)
  next
    case False
    with Some assms show ?thesis by (auto simp: update_saved)
  qed
qed

lemma update_no_password:
  "update st rnd i updateUserDto = (Inr v, st') \<Longrightarrow> UserEntity.password v = None"
  by (auto dest: update_Inr)

lemma update_token:
  assumes "update st rnd i updateUserDto = (Inr v, st')"
  shows "map_option refreshToken (findOneBy_id i (table st)) = Some (refreshToken v)"
  using update_Inr [OF assms] by auto

lemma update_row:
  assumes "update st rnd i updateUserDto = (Inr v, st')"
    and "findOneBy_id i (table st) = Some old"
  shows "findOneBy_id i (table st') = Some (merge_row (merged rnd old updateUserDto) old)"
    and "filter (\<lambda>r. id' r \<noteq> i) (table st') = filter (\<lambda>r. id' r \<noteq> i) (table st)"
    and "length (table st') = length (table st)"
proof -
  from assms have st': "st' = snd (save st (merged rnd old updateUserDto))"
    by (auto dest: update_Inr)
  from assms(2) have i: "id' old = i"
    by (auto dest: findOneBy_id_Some)
  from save_found [of "merged rnd old updateUserDto" st] assms(2)
  show "findOneBy_id i (table st') = Some (merge_row (merged rnd old updateUserDto) old)"
    by (simp add: st' i)
  from save_others [of "merged rnd old updateUserDto" st]
  show "filter (\<lambda>r. id' r \<noteq> i) (table st') = filter (\<lambda>r. id' r \<noteq> i) (table st)"
    by (simp add: st' i)
  show "length (table st') = length (table st)"
    by (simp add: st' save_table)
qed

lemma password_patch_free: "\<not> email_taken st u (password_patch newpass)"
  by (simp add: email_taken_def password_patch_def)

lemma update_password_patch:
  assumes "findOneBy_id i (table st) = Some old"
  shows "update st rnd i (password_patch newpass) =
     (Inr (merged rnd old (password_patch newpass)\<lparr> password := None \<rparr>),
      snd (save st (merged rnd old (password_patch newpass))))"
  using assms password_patch_free by (rule update_saved)


lemma isEmail_nonempty: "isEmail s \<Longrightarrow> s \<noteq> []"
  by (auto simp: isEmail_def)

lemma valid_update_email:
  "valid_update minLength updateUserDto \<Longrightarrow> UpdateUserDto.email updateUserDto \<noteq> Some []"
  by (auto simp: valid_update_def dest: isEmail_nonempty)


subsection \<open>The invariants of the table\<close>

lemma distinct_map_replace_fresh:
  "distinct (map k xs) \<Longrightarrow> distinct (map g xs) \<Longrightarrow> e \<notin> g ` set xs
   \<Longrightarrow> distinct (map (\<lambda>x. if k x = i then e else g x) xs)"
proof (induction xs)
  case Nil
  then show ?case by simp
next
  case (Cons x xs)
  then have ih: "distinct (map (\<lambda>x. if k x = i then e else g x) xs)" by simp
  show ?case
  proof (cases "k x = i")
    case True
    from Cons.prems(1) have "k x \<notin> k ` set xs" by simp
    with True have "\<forall>y\<in>set xs. k y \<noteq> i" by (metis imageI)
    then have eq: "map (\<lambda>x. if k x = i then e else g x) xs = map g xs" by simp
    have "e \<notin> set (map (\<lambda>x. if k x = i then e else g x) xs)"
      unfolding eq using Cons.prems(3) by simp
    with True ih show ?thesis by simp
  next
    case False
    with Cons.prems ih show ?thesis by (auto simp: image_iff)
  qed
qed

lemma map_replace_same:
  assumes "distinct (map k xs)" and "u \<in> set xs" and "k u = i" and "g u = e"
  shows "map (\<lambda>x. if k x = i then e else g x) xs = map g xs"
proof (rule map_cong [OF refl])
  fix x assume "x \<in> set xs"
  show "(if k x = i then e else g x) = g x"
  proof (cases "k x = i")
    case True
    with assms \<open>x \<in> set xs\<close> have "x = u"
      by (auto simp: distinct_map dest: inj_onD)
    with assms(4) show ?thesis by simp
  next
    case False
    then show ?thesis by simp
  qed
qed

lemma primary_key_ids:
  "primary_key st \<longleftrightarrow>
     distinct (map id' (table st)) \<and> (\<forall>j\<in>set (map id' (table st)). j < nextId st)"
  by (auto simp: primary_key_def list_all_iff)

lemma create_keeps_invariants:
  assumes "primary_key st" and "unique_emails st" and "create st rnd userDto = (Inr v, st')"
  shows "unique_emails st' \<and> primary_key st'"
proof -
  from assms(3) have on: "databaseEnabled st"
      and none: "findOneBy_email (CreateUserDto.email userDto) (table st) = None"
    by (auto dest: create_Inr)
  define hash where "hash = bcrypt_hash (CreateUserDto.password userDto) (genSalt default_rounds rnd)"
  from on none assms(3)
  have st': "st' = snd (save_new st (CreateUserDto.userName userDto) (CreateUserDto.email userDto) hash)"
    by (simp add: create_fresh hash_def)
  from none have "CreateUserDto.email userDto \<notin> set (map UserEntity.email (table st))"
    by (auto simp: findOneBy_email_None)
  with assms(2) have "unique_emails st'"
    by (simp add: unique_emails_def st' save_new_table)
  moreover from assms(1) have "nextId st \<notin> set (map id' (table st))"
    by (auto simp: primary_key_def list_all_iff)
  with assms(1) have "primary_key st'"
    by (auto simp: primary_key_def st' save_new_def Let_def list_all_iff)
  ultimately show ?thesis by simp
qed

lemma update_keeps_invariants:
  assumes "primary_key st" and "unique_emails st"
    and "update st rnd i updateUserDto = (Inr v, st')"
    and "UpdateUserDto.email updateUserDto \<noteq> Some []"
  shows "unique_emails st' \<and> primary_key st'"
proof -
  from assms(3) obtain u where u: "findOneBy_id i (table st) = Some u"
      and free: "\<not> email_taken st u updateUserDto"
      and st': "st' = snd (save st (merged rnd u updateUserDto))"
    by (auto dest: update_Inr)
  from u have uin: "u \<in> set (table st)" and uid: "id' u = i"
    by (auto dest: findOneBy_id_Some)
  from assms(1) have ids: "distinct (map id' (table st))"
    by (simp add: primary_key_def)
  from assms(2) have mails: "distinct (map UserEntity.email (table st))"
    by (simp add: unique_emails_def)
  let ?e = "UserEntity.email (merged rnd u updateUserDto)"
  have emails: "map UserEntity.email (table st')
      = map (\<lambda>row. if id' row = i then ?e else UserEntity.email row) (table st)"
    by (simp add: st' save_emails uid)
  have "?e = UserEntity.email u \<or> ?e \<notin> UserEntity.email ` set (table st)"
  proof (cases "UpdateUserDto.email updateUserDto")
    case None
    then show ?thesis by (simp add: merged_email)
  next
    case (Some e)
    with assms(4) have "truthy e" by (simp add: truthy_def)
    with Some free have "e = UserEntity.email u \<or> findOneBy_email e (table st) = None"
      by (auto simp: email_taken_def)
    with Some show ?thesis
      by (auto simp: merged_email findOneBy_email_None)
  qed
  then have "distinct (map UserEntity.email (table st'))"
  proof
    assume "?e = UserEntity.email u"
    with ids uin uid have "map (\<lambda>row. if id' row = i then ?e else UserEntity.email row) (table st)
        = map UserEntity.email (table st)"
      by (intro map_replace_same [where u = u]) simp_all
    with mails emails show ?thesis by simp
  next
    assume "?e \<notin> UserEntity.email ` set (table st)"
    with ids mails show ?thesis
      unfolding emails by (rule distinct_map_replace_fresh)
  qed
  moreover from assms(1) have "primary_key st'"
    by (simp add: primary_key_ids st' save_ids save_rest)
  ultimately show ?thesis by (simp add: unique_emails_def)
qed

lemma delete_id_keeps_invariants:
  assumes "primary_key st" and "unique_emails st"
  shows "unique_emails (snd (delete_id st i)) \<and> primary_key (snd (delete_id st i))"
  using assms
  by (simp add: unique_emails_def primary_key_ids delete_id_def distinct_map_filter)

lemma update_refreshToken_ids:
  "map id' (table (snd (update_refreshToken st i tok))) = map id' (table st)"
  by (simp add: update_refreshToken_table)

lemma update_refreshToken_emails:
  "map UserEntity.email (table (snd (update_refreshToken st i tok))) = map UserEntity.email (table st)"
  by (simp add: update_refreshToken_table)

lemma update_refreshToken_nextId: "nextId (snd (update_refreshToken st i tok)) = nextId st"
  by (simp add: update_refreshToken_def)

lemma update_refreshToken_keeps_invariants:
  assumes "primary_key st" and "unique_emails st"
  shows "unique_emails (snd (update_refreshToken st i tok))
       \<and> primary_key (snd (update_refreshToken st i tok))"
  using assms
  by (simp add: unique_emails_def primary_key_ids update_refreshToken_ids
      update_refreshToken_emails update_refreshToken_nextId)

subsection \<open>The examples, evaluated\<close>

lemma findOneBy_id_alice: "findOneBy_id 1 (table two_users) = Some alice"
  by (simp add: findOneBy_id_def two_users_def alice_def)

lemma findById_alice: "findById two_users 1 = (Inr (alice\<lparr> password := None \<rparr>), two_users)"
  by (simp add: findById_def findOneBy_id_def two_users_def alice_def)

lemma findAll_two_users:
  "findAll two_users first_page =
     (Inr \<lparr> items = [bob\<lparr> password := None \<rparr>, alice\<lparr> password := None \<rparr>],
             total = 2, page = 1, pageSize = 10, totalPages = 1 \<rparr>, two_users)"
  by (simp add: findAll_ok page_of_def first_page_def two_users_def newest_first_def
      alice_def bob_def ceil_div_def)

lemma create_carol:
  "create two_users 5 carol_dto =
     (Inr \<lparr> id' = 3, userName = ''carol'', email = ''carol@kdl.test'', password = None,
            refreshToken = None, createdAt = 2 \<rparr>,
      two_users\<lparr> table := [alice, bob,
            \<lparr> id' = 3, userName = ''carol'', email = ''carol@kdl.test'',
              password = Some (Bcrypt 10 5 ''carol-pw''), refreshToken = None, createdAt = 2 \<rparr>],
          nextId := 4, clock := 3 \<rparr>)"
  by (simp add: create_def two_users_def carol_dto_def findOneBy_email_def alice_def bob_def
      save_new_def Let_def genSalt_def default_rounds_def bcrypt_hash_def)

lemma update_alice:
  "fst (update two_users 5 1 rename_patch) =
     Inr (alice\<lparr> userName := ''alicia'', password := None \<rparr>)"
proof -
  have "findOneBy_id 1 (table two_users) = Some alice"
    by (simp add: findOneBy_id_def two_users_def alice_def)
  moreover have "\<not> email_taken two_users alice rename_patch"
    by (simp add: email_taken_def rename_patch_def)
  ultimately show ?thesis
    by (simp add: update_saved merged_def spread_def hash_patch_password_def rename_patch_def)
qed

lemma update_rename:
  "update two_users 5 1 rename_patch =
     (Inr (merged 5 alice rename_patch\<lparr> password := None \<rparr>),
      snd (save two_users (merged 5 alice rename_patch)))"
proof -
  have "\<not> email_taken two_users alice rename_patch"
    by (simp add: email_taken_def rename_patch_def)
  with findOneBy_id_alice show ?thesis by (rule update_saved)
qed

lemma primary_key_two_users: "primary_key two_users"
  by (simp add: primary_key_def two_users_def alice_def bob_def)

lemma unique_emails_two_users: "unique_emails two_users"
  by (simp add: unique_emails_def two_users_def alice_def bob_def)





lemma isEmail_email_patch: "valid_update 8 email_patch"
  by (simp add: valid_update_def email_patch_def isEmail_def)

section \<open>The claims\<close>

subsection \<open>Pagination\<close>

text \<open>
  C1. \<open>findAll\<close> destructures \<open>page\<close> and \<open>pageSize\<close> from its argument, and
  \<^verbatim>\<open>PaginationDto\<close> has no property \<open>pageSize\<close>: the page size is always the default 10
  and \<open>limit\<close> is never read. With six stored users, page 1 and limit 5, \<open>findAll\<close>
  returns six items, \<open>pageSize\<close> 10 and \<open>totalPages\<close> 1, where the supplied limit
  asks for five items, \<open>pageSize\<close> 5 and \<open>totalPages\<close> 2.
\<close>

theorem findAll_ignores_limit:
  "table six_users = map numbered_user [1..<7]
   \<and> first_page = \<lparr> PaginationDto.page = Some 1, limit = Some 5 \<rparr>
   \<and> map_sum id (\<lambda>pg. (length (items pg), total pg, page pg, pageSize pg, totalPages pg))
       (fst (findAll six_users first_page)) = Inr (6, 6, 1, 10, 1)"
  by (simp add: findAll_ok page_of_def first_page_def six_users_def length_newest_first ceil_div_def)

subsection \<open>What leaves the service\<close>

text \<open>
  C2 (as amended). What \<open>create\<close>, \<open>findAll\<close>, \<open>findById\<close> and \<open>update\<close> return has no
  password property. The refresh token is not removed: \<open>findById\<close> and \<open>update\<close>
  return the refresh token of the stored row, every item of \<open>findAll\<close> is a stored row
  without its password and nothing else taken away, and \<open>create\<close> returns a new user,
  whose refresh token is null.
\<close>

theorem outputs_hide_password_keep_token:
  "(\<forall>v st'. create st rnd userDto = (Inr v, st') \<longrightarrow>
       UserEntity.password v = None \<and> refreshToken v = None)
   \<and> (\<forall>pg st'. findAll st paginationDto = (Inr pg, st') \<longrightarrow>
         (\<forall>x\<in>set (items pg). UserEntity.password x = None
             \<and> (\<exists>u\<in>set (table st). x = u\<lparr> password := None \<rparr>)))
   \<and> (\<forall>v st'. findById st i = (Inr v, st') \<longrightarrow>
         UserEntity.password v = None
         \<and> map_option refreshToken (findOneBy_id i (table st)) = Some (refreshToken v))
   \<and> (\<forall>v st'. update st rnd' i updateUserDto = (Inr v, st') \<longrightarrow>
         UserEntity.password v = None
         \<and> map_option refreshToken (findOneBy_id i (table st)) = Some (refreshToken v))"
  by (intro conjI impI allI ballI)
     (simp_all add: create_no_password create_no_token findAll_no_password findAll_items_stored
        findById_no_password findById_token update_no_password update_token)

theorem outputs_hide_password_keep_token_witness:
  "map_sum id (\<lambda>v. (UserEntity.password v, refreshToken v)) (fst (create two_users 5 carol_dto))
     = Inr (None, None)
   \<and> map_sum id (\<lambda>pg. map (\<lambda>x. (UserEntity.password x, refreshToken x)) (items pg))
         (fst (findAll two_users first_page))
     = Inr [(None, None), (None, Some (Bcrypt 10 12 ''alice-token''))]
   \<and> map_sum id (\<lambda>v. (UserEntity.password v, refreshToken v)) (fst (findById two_users 1))
     = Inr (None, Some (Bcrypt 10 12 ''alice-token''))
   \<and> map_sum id (\<lambda>v. (UserEntity.password v, refreshToken v)) (fst (update two_users 5 1 rename_patch))
     = Inr (None, Some (Bcrypt 10 12 ''alice-token''))
   \<and> map_option refreshToken (findOneBy_id 1 (table two_users))
     = Some (Some (Bcrypt 10 12 ''alice-token''))"
proof -
  note inst = outputs_hide_password_keep_token
    [where st = two_users and rnd = 5 and userDto = carol_dto and paginationDto = first_page
       and i = 1 and rnd' = 5 and updateUserDto = rename_patch]
  let ?carol = "\<lparr> id' = 3, userName = ''carol'', email = ''carol@kdl.test'', password = None,
            refreshToken = None, createdAt = 2 \<rparr>"
  have stored: "map_option refreshToken (findOneBy_id 1 (table two_users))
      = Some (Some (Bcrypt 10 12 ''alice-token''))"
    by (simp add: findOneBy_id_alice) (simp add: alice_def)
  from inst create_carol
  have "UserEntity.password ?carol = None \<and> refreshToken ?carol = None"
    by blast
  then have c: "map_sum id (\<lambda>v. (UserEntity.password v, refreshToken v))
      (fst (create two_users 5 carol_dto)) = Inr (None, None)"
    by (simp add: create_carol)
  from inst findAll_two_users
  have "\<forall>x\<in>set [bob\<lparr> password := None \<rparr>, alice\<lparr> password := None \<rparr>].
      UserEntity.password x = None \<and> (\<exists>u\<in>set (table two_users). x = u\<lparr> password := None \<rparr>)"
    by fastforce
  then have a: "map_sum id (\<lambda>pg. map (\<lambda>x. (UserEntity.password x, refreshToken x)) (items pg))
         (fst (findAll two_users first_page))
     = Inr [(None, None), (None, Some (Bcrypt 10 12 ''alice-token''))]"
    by (simp add: findAll_two_users) (simp add: alice_def bob_def)
  from inst findById_alice
  have "UserEntity.password (alice\<lparr> password := None \<rparr>) = None
      \<and> map_option refreshToken (findOneBy_id 1 (table two_users))
          = Some (refreshToken (alice\<lparr> password := None \<rparr>))"
    by blast
  with stored have f: "map_sum id (\<lambda>v. (UserEntity.password v, refreshToken v)) (fst (findById two_users 1))
     = Inr (None, Some (Bcrypt 10 12 ''alice-token''))"
    by (simp add: findById_alice)
  from inst update_rename
  have "UserEntity.password (merged 5 alice rename_patch\<lparr> password := None \<rparr>) = None
      \<and> map_option refreshToken (findOneBy_id 1 (table two_users))
          = Some (refreshToken (merged 5 alice rename_patch\<lparr> password := None \<rparr>))"
    by blast
  with stored have u: "map_sum id (\<lambda>v. (UserEntity.password v, refreshToken v))
      (fst (update two_users 5 1 rename_patch)) = Inr (None, Some (Bcrypt 10 12 ''alice-token''))"
    by (simp add: update_rename)
  from c a f u stored show ?thesis by simp
qed

text \<open>
  The stored hash of alice's refresh token is in what \<open>findById\<close>, \<open>findAll\<close> and
  \<open>update\<close> return.
\<close>

theorem refresh_token_exposed_counterexample:
  "map_option refreshToken (findOneBy_id 1 (table two_users)) = Some (Some (Bcrypt 10 12 ''alice-token''))
   \<and> map_sum id refreshToken (fst (findById two_users 1)) = Inr (Some (Bcrypt 10 12 ''alice-token''))
   \<and> map_sum id (\<lambda>pg. map refreshToken (items pg)) (fst (findAll two_users first_page))
       = Inr [None, Some (Bcrypt 10 12 ''alice-token'')]
   \<and> map_sum id refreshToken (fst (update two_users 5 1 rename_patch))
       = Inr (Some (Bcrypt 10 12 ''alice-token''))"
  by (simp add: findById_alice findAll_two_users update_alice)
     (simp add: alice_def bob_def findOneBy_id_def two_users_def)

subsection \<open>Email uniqueness\<close>

text \<open>
  C3. In a state whose stored emails are pairwise distinct (and whose ids are the
  primary key of the table), every successful \<open>create\<close> and every successful \<open>update\<close>,
  also one that changes the email, leaves a state whose stored emails are pairwise
  distinct (and whose ids are still a primary key): both look the new email up before
  they write. The patch is one that the validation of the DTO lets through to the
  service, as the creation input is. The other methods that write, \<open>remove\<close>,
  \<open>updateRefreshToken\<close> and \<open>removeRefreshToken\<close>, keep both properties as well, so
  that they hold in every state reached by such calls.
\<close>

theorem email_uniqueness_preserved:
  assumes "primary_key st" and "unique_emails st"
  shows "(\<forall>v st'. create st rnd userDto = (Inr v, st') \<longrightarrow> unique_emails st' \<and> primary_key st')
       \<and> (\<forall>v st'. update st rnd' i updateUserDto = (Inr v, st') \<longrightarrow>
              valid_update minLength updateUserDto \<longrightarrow>
              unique_emails st' \<and> primary_key st')
       \<and> unique_emails (snd (remove st i)) \<and> primary_key (snd (remove st i))
       \<and> unique_emails (snd (updateRefreshToken st rnd userId tok))
       \<and> primary_key (snd (updateRefreshToken st rnd userId tok))
       \<and> unique_emails (snd (removeRefreshToken st userId))
       \<and> primary_key (snd (removeRefreshToken st userId))"
proof (intro conjI allI impI)
  fix v st'
  assume "create st rnd userDto = (Inr v, st')"
  with assms have "unique_emails st' \<and> primary_key st'" by (rule create_keeps_invariants)
  then show "unique_emails st'" "primary_key st'" by simp_all
next
  fix v st'
  assume upd: "update st rnd' i updateUserDto = (Inr v, st')"
    and "valid_update minLength updateUserDto"
  then have "UpdateUserDto.email updateUserDto \<noteq> Some []"
    by (simp add: valid_update_email)
  with assms upd have "unique_emails st' \<and> primary_key st'" by (rule update_keeps_invariants)
  then show "unique_emails st'" "primary_key st'" by simp_all
next
  from assms show "unique_emails (snd (remove st i))" "primary_key (snd (remove st i))"
    by (simp_all add: remove_state delete_id_keeps_invariants)
  from assms show "unique_emails (snd (updateRefreshToken st rnd userId tok))"
    "primary_key (snd (updateRefreshToken st rnd userId tok))"
    by (simp_all add: updateRefreshToken_state update_refreshToken_keeps_invariants)
  from assms show "unique_emails (snd (removeRefreshToken st userId))"
    "primary_key (snd (removeRefreshToken st userId))"
    by (simp_all add: removeRefreshToken_state update_refreshToken_keeps_invariants)
qed

theorem email_uniqueness_preserved_witness:
  "primary_key two_users \<and> unique_emails two_users \<and> valid_update 8 email_patch
   \<and> \<not> isl (fst (create two_users 5 carol_dto))
   \<and> unique_emails (snd (create two_users 5 carol_dto))
   \<and> \<not> isl (fst (update two_users 5 1 email_patch))
   \<and> map UserEntity.email (table (snd (update two_users 5 1 email_patch)))
       = [''alice@kdl.example'', ''bob@kdl.test'']
   \<and> unique_emails (snd (update two_users 5 1 email_patch))"
proof -
  note inst = email_uniqueness_preserved
    [OF primary_key_two_users unique_emails_two_users,
      where rnd = 5 and userDto = carol_dto and rnd' = 5 and i = 1 and updateUserDto = email_patch
        and userId = 1 and tok = "''r-token''" and minLength = 8]
  have "\<not> email_taken two_users alice email_patch"
    by (simp add: email_taken_def email_patch_def findOneBy_email_def two_users_def alice_def bob_def)
  with findOneBy_id_alice
  have upd: "update two_users 5 1 email_patch =
      (Inr (merged 5 alice email_patch\<lparr> password := None \<rparr>),
       snd (save two_users (merged 5 alice email_patch)))"
    by (rule update_saved)
  have mails: "map UserEntity.email (table (snd (update two_users 5 1 email_patch)))
       = [''alice@kdl.example'', ''bob@kdl.test'']"
    unfolding upd
    by (simp add: save_emails merged_email email_patch_def two_users_def alice_def bob_def)
  from inst create_carol have c: "unique_emails (snd (create two_users 5 carol_dto))"
    by (metis snd_conv)
  from inst upd isEmail_email_patch
  have u: "unique_emails (snd (update two_users 5 1 email_patch))"
    by (metis snd_conv)
  from c u mails show ?thesis
    by (simp add: primary_key_two_users unique_emails_two_users isEmail_email_patch)
       (simp add: create_carol upd)
qed

subsection \<open>Creation\<close>

text \<open>
  C4. With persistence enabled, \<open>create\<close> on an input whose email no stored user has
  succeeds, and the object it returns has no password property. Every item that
  \<open>findAll\<close> returns, the user that \<open>findById\<close> returns and the user that \<open>update\<close>
  returns have no password property either.
\<close>

theorem outputs_without_password:
  "(databaseEnabled st \<longrightarrow>
      (\<forall>u\<in>set (table st). UserEntity.email u \<noteq> CreateUserDto.email userDto) \<longrightarrow>
      (\<exists>v st'. create st rnd userDto = (Inr v, st') \<and> UserEntity.password v = None))
   \<and> (\<forall>pg st'. findAll st paginationDto = (Inr pg, st') \<longrightarrow>
         (\<forall>x\<in>set (items pg). UserEntity.password x = None))
   \<and> (\<forall>v st'. findById st i = (Inr v, st') \<longrightarrow> UserEntity.password v = None)
   \<and> (\<forall>v st'. update st rnd' i updateUserDto = (Inr v, st') \<longrightarrow> UserEntity.password v = None)"
proof (intro conjI impI allI ballI)
  assume "databaseEnabled st"
    and "\<forall>u\<in>set (table st). UserEntity.email u \<noteq> CreateUserDto.email userDto"
  then have "create st rnd userDto =
      (Inr (fst (save_new st (CreateUserDto.userName userDto) (CreateUserDto.email userDto)
                   (bcrypt_hash (CreateUserDto.password userDto) (genSalt default_rounds rnd)))
              \<lparr> password := None \<rparr>),
       snd (save_new st (CreateUserDto.userName userDto) (CreateUserDto.email userDto)
              (bcrypt_hash (CreateUserDto.password userDto) (genSalt default_rounds rnd))))"
    by (simp add: create_fresh findOneBy_email_None)
  then show "\<exists>v st'. create st rnd userDto = (Inr v, st') \<and> UserEntity.password v = None"
    by simp
next
  fix pg st' x
  assume "findAll st paginationDto = (Inr pg, st')" and "x \<in> set (items pg)"
  then show "UserEntity.password x = None" by (rule findAll_no_password)
next
  fix v st'
  assume "findById st i = (Inr v, st')"
  then show "UserEntity.password v = None" by (rule findById_no_password)
next
  fix v st'
  assume "update st rnd' i updateUserDto = (Inr v, st')"
  then show "UserEntity.password v = None" by (rule update_no_password)
qed

theorem outputs_without_password_witness:
  "map_sum id UserEntity.password (fst (create two_users 5 carol_dto)) = Inr None
   \<and> map_sum id (\<lambda>pg. (length (items pg), list_all (\<lambda>x. UserEntity.password x = None) (items pg)))
         (fst (findAll two_users first_page)) = Inr (2, True)
   \<and> map_sum id UserEntity.password (fst (findById two_users 1)) = Inr None
   \<and> map_sum id UserEntity.password (fst (update two_users 5 1 rename_patch)) = Inr None"
proof -
  note inst = outputs_without_password
    [where st = two_users and rnd = 5 and userDto = carol_dto and paginationDto = first_page
       and i = 1 and rnd' = 5 and updateUserDto = rename_patch]
  have on: "databaseEnabled two_users"
    by (simp add: two_users_def)
  have fresh: "\<forall>u\<in>set (table two_users). UserEntity.email u \<noteq> CreateUserDto.email carol_dto"
    by (simp add: two_users_def alice_def bob_def carol_dto_def)
  from inst on fresh obtain v st' where "create two_users 5 carol_dto = (Inr v, st')"
    and "UserEntity.password v = None"
    by blast
  then have c: "map_sum id UserEntity.password (fst (create two_users 5 carol_dto)) = Inr None"
    by simp
  from inst findAll_two_users
  have "\<forall>x\<in>set [bob\<lparr> password := None \<rparr>, alice\<lparr> password := None \<rparr>]. UserEntity.password x = None"
    by fastforce
  then have a: "map_sum id (\<lambda>pg. (length (items pg), list_all (\<lambda>x. UserEntity.password x = None) (items pg)))
         (fst (findAll two_users first_page)) = Inr (2, True)"
    by (simp add: findAll_two_users)
  from inst findById_alice
  have f: "map_sum id UserEntity.password (fst (findById two_users 1)) = Inr None"
    by simp
  obtain st2 where "update two_users 5 1 rename_patch =
      (Inr (alice\<lparr> userName := ''alicia'', password := None \<rparr>), st2)"
    using update_alice by (cases "update two_users 5 1 rename_patch") simp
  with inst have u: "map_sum id UserEntity.password (fst (update two_users 5 1 rename_patch)) = Inr None"
    by simp
  from c a f u show ?thesis by simp
qed

text \<open>
  C5 (as amended). With persistence enabled, \<open>create\<close> on an input whose email some
  stored user has fails with \<open>DuplicateEmail\<close> and leaves the state as it was; and when
  no stored user has the email, the first \<open>create\<close> succeeds and a second \<open>create\<close>
  with the same email, in the state the first one left, fails with \<open>DuplicateEmail\<close>.
  With persistence disabled \<open>create\<close> fails with \<open>FeatureDisabled\<close> and leaves the state
  as it was, whatever the table holds.
\<close>

theorem create_rejects_stored_email:
  "(databaseEnabled st \<longrightarrow>
      (\<exists>u\<in>set (table st). UserEntity.email u = CreateUserDto.email userDto) \<longrightarrow>
      create st rnd userDto = (Inl DuplicateEmail, st))
   \<and> (databaseEnabled st \<longrightarrow>
      (\<forall>u\<in>set (table st). UserEntity.email u \<noteq> CreateUserDto.email userDto) \<longrightarrow>
      CreateUserDto.email second = CreateUserDto.email userDto \<longrightarrow>
      (\<exists>v st1. create st rnd userDto = (Inr v, st1)
         \<and> create st1 rnd2 second = (Inl DuplicateEmail, st1)))
   \<and> (\<not> databaseEnabled st \<longrightarrow> create st rnd userDto = (Inl FeatureDisabled, st))"
proof (intro conjI impI)
  assume on: "databaseEnabled st"
    and "\<exists>u\<in>set (table st). UserEntity.email u = CreateUserDto.email userDto"
  then have "findOneBy_email (CreateUserDto.email userDto) (table st) \<noteq> None"
    by (simp add: findOneBy_email_None)
  with on show "create st rnd userDto = (Inl DuplicateEmail, st)"
    by (rule create_duplicate)
next
  assume on: "databaseEnabled st"
    and fresh: "\<forall>u\<in>set (table st). UserEntity.email u \<noteq> CreateUserDto.email userDto"
    and same: "CreateUserDto.email second = CreateUserDto.email userDto"
  define hash where "hash = bcrypt_hash (CreateUserDto.password userDto) (genSalt default_rounds rnd)"
  define st1 where "st1 = snd (save_new st (CreateUserDto.userName userDto)
                                 (CreateUserDto.email userDto) hash)"
  from fresh have none: "findOneBy_email (CreateUserDto.email userDto) (table st) = None"
    by (simp add: findOneBy_email_None)
  with on have first: "create st rnd userDto =
      (Inr (fst (save_new st (CreateUserDto.userName userDto) (CreateUserDto.email userDto) hash)
              \<lparr> password := None \<rparr>), st1)"
    by (simp add: create_fresh hash_def st1_def)
  have "databaseEnabled st1"
    using on by (simp add: st1_def save_new_flag)
  moreover have "findOneBy_email (CreateUserDto.email second) (table st1) \<noteq> None"
    by (simp add: findOneBy_email_None st1_def save_new_table same)
  ultimately have "create st1 rnd2 second = (Inl DuplicateEmail, st1)"
    by (rule create_duplicate)
  with first show "\<exists>v st1. create st rnd userDto = (Inr v, st1)
      \<and> create st1 rnd2 second = (Inl DuplicateEmail, st1)"
    by blast
next
  assume "\<not> databaseEnabled st"
  then show "create st rnd userDto = (Inl FeatureDisabled, st)"
    by (rule create_disabled)
qed

theorem create_rejects_stored_email_witness:
  "databaseEnabled two_users
   \<and> fst (create two_users 5 alice_again) = Inl DuplicateEmail
   \<and> snd (create two_users 5 alice_again) = two_users
   \<and> fst (create two_users 5 carol_dto) \<noteq> Inl DuplicateEmail
   \<and> fst (create (snd (create two_users 5 carol_dto)) 6 carol_dto) = Inl DuplicateEmail
   \<and> \<not> databaseEnabled disabled
   \<and> create disabled 5 alice_again = (Inl FeatureDisabled, disabled)
   \<and> create disabled 5 carol_dto = (Inl FeatureDisabled, disabled)"
proof -
  have on: "databaseEnabled two_users"
    by (simp add: two_users_def)
  have off: "\<not> databaseEnabled disabled"
    by (simp add: disabled_def)
  have stored: "\<exists>u\<in>set (table two_users). UserEntity.email u = CreateUserDto.email alice_again"
    by (simp add: two_users_def alice_def bob_def alice_again_def)
  have fresh: "\<forall>u\<in>set (table two_users). UserEntity.email u \<noteq> CreateUserDto.email carol_dto"
    by (simp add: two_users_def alice_def bob_def carol_dto_def)
  from on stored create_rejects_stored_email [where st = two_users and userDto = alice_again and rnd = 5]
  have "fst (create two_users 5 alice_again) = Inl DuplicateEmail
        \<and> snd (create two_users 5 alice_again) = two_users"
    by simp
  moreover from on fresh create_rejects_stored_email
      [where st = two_users and userDto = carol_dto and second = carol_dto and rnd = 5
         and ?rnd2.0 = 6]
  have "fst (create two_users 5 carol_dto) \<noteq> Inl DuplicateEmail
        \<and> fst (create (snd (create two_users 5 carol_dto)) 6 carol_dto) = Inl DuplicateEmail"
    by auto
  moreover from off create_rejects_stored_email [where st = disabled and userDto = alice_again and rnd = 5]
  have "create disabled 5 alice_again = (Inl FeatureDisabled, disabled)"
    by simp
  moreover from off create_rejects_stored_email [where st = disabled and userDto = carol_dto and rnd = 5]
  have "create disabled 5 carol_dto = (Inl FeatureDisabled, disabled)"
    by simp
  ultimately show ?thesis using on off by simp
qed

text \<open>
  With persistence disabled the flag is tested before the lookup: \<open>create\<close> on the
  email of a stored user fails with \<open>FeatureDisabled\<close>, not with \<open>DuplicateEmail\<close>.
\<close>

theorem create_disabled_counterexample:
  "alice \<in> set (table disabled)
   \<and> UserEntity.email alice = CreateUserDto.email alice_again
   \<and> create disabled 5 alice_again = (Inl FeatureDisabled, disabled)
   \<and> fst (create disabled 5 alice_again) \<noteq> Inl DuplicateEmail"
proof -
  have off: "\<not> databaseEnabled disabled"
    by (simp add: disabled_def)
  have "alice \<in> set (table disabled)"
    by (simp add: disabled_def two_users_def)
  moreover have "UserEntity.email alice = CreateUserDto.email alice_again"
    by (simp add: alice_def alice_again_def)
  ultimately show ?thesis
    by (simp add: create_disabled [OF off])
qed

subsection \<open>Update\<close>

text \<open>
  C6. After a successful \<open>update\<close> of the user stored under an id, the row under that
  id has the id, \<open>createdAt\<close> and refresh token it had; its \<open>userName\<close> and \<open>email\<close>
  are the patch's where the patch has them and the old ones where it has not; its
  password is the old hash when the patch has no password, and the patch's (as
  \<open>update\<close> processed it) otherwise. The rows under every other id are unchanged, and
  no row is added or removed.
\<close>

theorem update_merges_patch:
  assumes "update st rnd i updateUserDto = (Inr v, st')"
    and "findOneBy_id i (table st) = Some old"
  shows "\<exists>new. findOneBy_id i (table st') = Some new
     \<and> id' new = id' old \<and> createdAt new = createdAt old \<and> refreshToken new = refreshToken old
     \<and> UserEntity.userName new =
          (case UpdateUserDto.userName updateUserDto of None \<Rightarrow> UserEntity.userName old | Some n \<Rightarrow> n)
     \<and> UserEntity.email new =
          (case UpdateUserDto.email updateUserDto of None \<Rightarrow> UserEntity.email old | Some e \<Rightarrow> e)
     \<and> (UpdateUserDto.password updateUserDto = None \<longrightarrow>
          UserEntity.password new = UserEntity.password old)
     \<and> (UpdateUserDto.password updateUserDto \<noteq> None \<longrightarrow>
          UserEntity.password new = hash_patch_password rnd updateUserDto)
     \<and> filter (\<lambda>r. id' r \<noteq> i) (table st') = filter (\<lambda>r. id' r \<noteq> i) (table st)
     \<and> length (table st') = length (table st)"
proof (intro exI conjI)
  let ?new = "merge_row (merged rnd old updateUserDto) old"
  show "findOneBy_id i (table st') = Some ?new"
    by (rule update_row(1) [OF assms])
  show "filter (\<lambda>r. id' r \<noteq> i) (table st') = filter (\<lambda>r. id' r \<noteq> i) (table st)"
    by (rule update_row(2) [OF assms])
  show "length (table st') = length (table st)"
    by (rule update_row(3) [OF assms])
  show "UpdateUserDto.password updateUserDto = None \<longrightarrow>
      UserEntity.password ?new = UserEntity.password old"
    by (simp add: merge_row_fields merged_password hash_patch_password_def)
  show "UpdateUserDto.password updateUserDto \<noteq> None \<longrightarrow>
      UserEntity.password ?new = hash_patch_password rnd updateUserDto"
    by (auto simp: merge_row_fields merged_password hash_patch_password_def)
  show "id' ?new = id' old" "createdAt ?new = createdAt old"
    "refreshToken ?new = refreshToken old"
    by (simp_all add: merge_row_fields)
  show "UserEntity.userName ?new =
      (case UpdateUserDto.userName updateUserDto of None \<Rightarrow> UserEntity.userName old | Some n \<Rightarrow> n)"
    by (simp add: merge_row_fields merged_userName)
  show "UserEntity.email ?new =
      (case UpdateUserDto.email updateUserDto of None \<Rightarrow> UserEntity.email old | Some e \<Rightarrow> e)"
    by (simp add: merge_row_fields merged_email)
qed

theorem update_merges_patch_witness:
  "map_option (\<lambda>u. (id' u, UserEntity.userName u, UserEntity.email u, UserEntity.password u,
                     refreshToken u, createdAt u))
     (findOneBy_id 1 (table (snd (update two_users 5 1 rename_patch))))
   = Some (1, ''alicia'', ''alice@kdl.test'', Some (Bcrypt 10 11 ''alice-pw''),
           Some (Bcrypt 10 12 ''alice-token''), 0)
   \<and> filter (\<lambda>r. id' r \<noteq> 1) (table (snd (update two_users 5 1 rename_patch))) = [bob]
   \<and> map_option (\<lambda>u. (id' u, UserEntity.userName u, UserEntity.email u, UserEntity.password u,
                     refreshToken u, createdAt u))
     (findOneBy_id 1 (table (snd (update two_users 5 1 (password_patch ''new-pw'')))))
   = Some (1, ''alice'', ''alice@kdl.test'', Some (Bcrypt 10 5 ''new-pw''),
           Some (Bcrypt 10 12 ''alice-token''), 0)"
proof -
  let ?st' = "snd (save two_users (merged 5 alice rename_patch))"
  let ?st'' = "snd (save two_users (merged 5 alice (password_patch ''new-pw'')))"
  from update_merges_patch [OF update_rename findOneBy_id_alice]
  obtain new where new: "findOneBy_id 1 (table ?st') = Some new
     \<and> id' new = id' alice \<and> createdAt new = createdAt alice \<and> refreshToken new = refreshToken alice
     \<and> UserEntity.userName new =
          (case UpdateUserDto.userName rename_patch of None \<Rightarrow> UserEntity.userName alice | Some n \<Rightarrow> n)
     \<and> UserEntity.email new =
          (case UpdateUserDto.email rename_patch of None \<Rightarrow> UserEntity.email alice | Some e \<Rightarrow> e)
     \<and> (UpdateUserDto.password rename_patch = None \<longrightarrow>
          UserEntity.password new = UserEntity.password alice)
     \<and> (UpdateUserDto.password rename_patch \<noteq> None \<longrightarrow>
          UserEntity.password new = hash_patch_password 5 rename_patch)
     \<and> filter (\<lambda>r. id' r \<noteq> 1) (table ?st') = filter (\<lambda>r. id' r \<noteq> 1) (table two_users)
     \<and> length (table ?st') = length (table two_users)" ..
  then have found: "findOneBy_id 1 (table ?st') = Some new"
    and rest: "filter (\<lambda>r. id' r \<noteq> 1) (table ?st') = filter (\<lambda>r. id' r \<noteq> 1) (table two_users)"
    by simp_all
  from new have fields: "(id' new, UserEntity.userName new, UserEntity.email new, UserEntity.password new,
              refreshToken new, createdAt new)
      = (1, ''alicia'', ''alice@kdl.test'', Some (Bcrypt 10 11 ''alice-pw''),
         Some (Bcrypt 10 12 ''alice-token''), 0)"
    by (simp add: rename_patch_def alice_def)
  have others: "filter (\<lambda>r. id' r \<noteq> 1) (table two_users) = [bob]"
    by (simp add: two_users_def alice_def bob_def)
  have upd2: "update two_users 5 1 (password_patch ''new-pw'') =
      (Inr (merged 5 alice (password_patch ''new-pw'')\<lparr> password := None \<rparr>), ?st'')"
    by (rule update_password_patch [OF findOneBy_id_alice])
  from update_merges_patch [OF upd2 findOneBy_id_alice]
  obtain new' where new': "findOneBy_id 1 (table ?st'') = Some new'
     \<and> id' new' = id' alice \<and> createdAt new' = createdAt alice \<and> refreshToken new' = refreshToken alice
     \<and> UserEntity.userName new' =
          (case UpdateUserDto.userName (password_patch ''new-pw'') of
             None \<Rightarrow> UserEntity.userName alice | Some n \<Rightarrow> n)
     \<and> UserEntity.email new' =
          (case UpdateUserDto.email (password_patch ''new-pw'') of
             None \<Rightarrow> UserEntity.email alice | Some e \<Rightarrow> e)
     \<and> (UpdateUserDto.password (password_patch ''new-pw'') = None \<longrightarrow>
          UserEntity.password new' = UserEntity.password alice)
     \<and> (UpdateUserDto.password (password_patch ''new-pw'') \<noteq> None \<longrightarrow>
          UserEntity.password new' = hash_patch_password 5 (password_patch ''new-pw''))
     \<and> filter (\<lambda>r. id' r \<noteq> 1) (table ?st'') = filter (\<lambda>r. id' r \<noteq> 1) (table two_users)
     \<and> length (table ?st'') = length (table two_users)" ..
  then have found': "findOneBy_id 1 (table ?st'') = Some new'"
    by simp
  from new' have fields': "(id' new', UserEntity.userName new', UserEntity.email new',
              UserEntity.password new', refreshToken new', createdAt new')
      = (1, ''alice'', ''alice@kdl.test'', Some (Bcrypt 10 5 ''new-pw''),
         Some (Bcrypt 10 12 ''alice-token''), 0)"
    by (simp add: password_patch_def alice_def hash_patch_password_def truthy_def
        bcrypt_hash_def genSalt_def default_rounds_def)
  from fields fields' others show ?thesis
    unfolding update_rename upd2 snd_conv found found' rest
    by simp
qed




subsection \<open>Removal\<close>

text \<open>
  C8. \<open>remove\<close> fails with \<open>NotFound\<close> exactly when the delete affects zero rows,
  which is exactly when no row has the id; in that case the state it leaves is the state
  it was given. On an id that is stored it succeeds, and \<open>findById\<close> on the same id
  fails with \<open>NotFound\<close> afterwards.
\<close>

theorem remove_not_found_iff_no_row:
  "(fst (remove st i) = Inl NotFound \<longleftrightarrow> fst (delete_id st i) = 0)
   \<and> (fst (delete_id st i) = 0 \<longleftrightarrow> findOneBy_id i (table st) = None)
   \<and> (fst (remove st i) = Inl NotFound \<longrightarrow> snd (remove st i) = st)
   \<and> (findOneBy_id i (table st) \<noteq> None \<longrightarrow>
        fst (remove st i) = Inr () \<and> fst (findById (snd (remove st i)) i) = Inl NotFound)"
proof (intro conjI impI)
  show "fst (remove st i) = Inl NotFound \<longleftrightarrow> fst (delete_id st i) = 0"
    by (rule remove_NotFound_iff)
  show "fst (delete_id st i) = 0 \<longleftrightarrow> findOneBy_id i (table st) = None"
    by (rule delete_id_affected)
next
  assume "fst (remove st i) = Inl NotFound"
  then have "findOneBy_id i (table st) = None"
    by (simp add: remove_NotFound_iff delete_id_affected)
  then show "snd (remove st i) = st"
    by (simp add: remove_state delete_id_none)
next
  assume ex: "findOneBy_id i (table st) \<noteq> None"
  then have "fst (delete_id st i) \<noteq> 0"
    by (simp add: delete_id_affected)
  then show "fst (remove st i) = Inr ()"
    by (cases "delete_id st i") (simp add: remove_def)
next
  assume ex: "findOneBy_id i (table st) \<noteq> None"
  show "fst (findById (snd (remove st i)) i) = Inl NotFound"
    by (simp add: findById_def remove_state delete_id_gone)
qed

theorem remove_not_found_iff_no_row_witness:
  "fst (remove two_users 9) = Inl NotFound \<and> snd (remove two_users 9) = two_users
   \<and> findOneBy_id 2 (table two_users) \<noteq> None
   \<and> fst (remove two_users 2) = Inr ()
   \<and> fst (findById (snd (remove two_users 2)) 2) = Inl NotFound"
proof -
  have none: "findOneBy_id 9 (table two_users) = None"
    by (simp add: findOneBy_id_def two_users_def alice_def bob_def)
  have some: "findOneBy_id 2 (table two_users) \<noteq> None"
    by (simp add: findOneBy_id_def two_users_def alice_def bob_def)
  from none remove_not_found_iff_no_row [of two_users 9]
  have "fst (remove two_users 9) = Inl NotFound \<and> snd (remove two_users 9) = two_users"
    by simp
  moreover from some remove_not_found_iff_no_row [of two_users 2]
  have "fst (remove two_users 2) = Inr ()
        \<and> fst (findById (snd (remove two_users 2)) 2) = Inl NotFound"
    by simp
  ultimately show ?thesis using some by simp
qed

subsection \<open>Refresh tokens\<close>

text \<open>
  C9. \<open>updateRefreshToken\<close> stores, in every row with the given id, the bcrypt hash
  of the token (of its first 72 bytes, which are what bcrypt hashes) under a salt of
  cost 10, which is not the raw token; after
  \<open>removeRefreshToken\<close> on the same id the refresh token of every such row is null.
  When the id is stored, the row found by id holds the hash after the first call and
  null after the second.
\<close>

theorem refresh_token_hashed_then_cleared:
  assumes "st1 = snd (updateRefreshToken st rnd userId tok)"
    and "st2 = snd (removeRefreshToken st1 userId)"
  shows "(\<forall>u\<in>set (table st1). id' u = userId \<longrightarrow>
            refreshToken u = Some (Bcrypt 10 rnd (take 72 tok)) \<and> refreshToken u \<noteq> Some (Raw tok))
       \<and> (findOneBy_id userId (table st) \<noteq> None \<longrightarrow>
            map_option refreshToken (findOneBy_id userId (table st1)) = Some (Some (Bcrypt 10 rnd (take 72 tok))))
       \<and> (\<forall>u\<in>set (table st2). id' u = userId \<longrightarrow> refreshToken u = None)
       \<and> (findOneBy_id userId (table st) \<noteq> None \<longrightarrow>
            map_option refreshToken (findOneBy_id userId (table st2)) = Some None)"
proof (intro conjI ballI impI)
  fix u assume u: "u \<in> set (table st1)" "id' u = userId"
  with assms(1) have "refreshToken u = Some (bcrypt_hash_rounds tok 10 rnd)"
    by (simp add: updateRefreshToken_state update_refreshToken_all)
  then show "refreshToken u = Some (Bcrypt 10 rnd (take 72 tok))" "refreshToken u \<noteq> Some (Raw tok)"
    by (simp_all add: bcrypt_hash_rounds_def bcrypt_hash_def genSalt_def)
next
  assume "findOneBy_id userId (table st) \<noteq> None"
  then obtain u where "findOneBy_id userId (table st) = Some u" by auto
  with assms(1) show "map_option refreshToken (findOneBy_id userId (table st1)) = Some (Some (Bcrypt 10 rnd (take 72 tok)))"
    by (simp add: updateRefreshToken_state update_refreshToken_found
        bcrypt_hash_rounds_def bcrypt_hash_def genSalt_def)
next
  fix u assume "u \<in> set (table st2)" "id' u = userId"
  with assms(2) show "refreshToken u = None"
    by (simp add: removeRefreshToken_state update_refreshToken_all)
next
  assume "findOneBy_id userId (table st) \<noteq> None"
  then obtain u where "findOneBy_id userId (table st) = Some u" by auto
  with assms show "map_option refreshToken (findOneBy_id userId (table st2)) = Some None"
    by (simp add: updateRefreshToken_state removeRefreshToken_state update_refreshToken_found)
qed

theorem refresh_token_hashed_then_cleared_witness:
  "map_option refreshToken (findOneBy_id 2 (table (snd (updateRefreshToken two_users 7 2 ''r-token''))))
     = Some (Some (Bcrypt 10 7 ''r-token''))
   \<and> map_option refreshToken
        (findOneBy_id 2 (table (snd (removeRefreshToken (snd (updateRefreshToken two_users 7 2 ''r-token'')) 2))))
     = Some None"
proof -
  have some: "findOneBy_id 2 (table two_users) \<noteq> None"
    by (simp add: findOneBy_id_def two_users_def alice_def bob_def)
  show ?thesis
    using some refresh_token_hashed_then_cleared
            [where st = two_users and rnd = 7 and userId = 2 and tok = "''r-token''", OF refl refl]
    by simp
qed

text \<open>
  C10. \<open>updateRefreshToken\<close> and \<open>removeRefreshToken\<close> return normally for every
  user id. For an id that no row has, the repository update affects zero rows, both
  calls still succeed and leave the state as it was, whereas \<open>remove\<close> on the same id
  fails with \<open>NotFound\<close>.
\<close>

theorem refresh_token_calls_never_fail:
  "fst (updateRefreshToken st rnd userId tok) = Inr ()
   \<and> fst (removeRefreshToken st userId) = Inr ()
   \<and> (findOneBy_id userId (table st) = None \<longrightarrow>
        fst (update_refreshToken st userId (Some (bcrypt_hash_rounds tok 10 rnd))) = 0
        \<and> fst (update_refreshToken st userId None) = 0
        \<and> snd (updateRefreshToken st rnd userId tok) = st
        \<and> snd (removeRefreshToken st userId) = st
        \<and> fst (remove st userId) = Inl NotFound)"
  by (simp add: updateRefreshToken_result removeRefreshToken_result update_refreshToken_affected
      updateRefreshToken_state removeRefreshToken_state update_refreshToken_none
      remove_NotFound_iff delete_id_affected)

theorem refresh_token_calls_never_fail_witness:
  "findOneBy_id 9 (table two_users) = None
   \<and> fst (updateRefreshToken two_users 7 9 ''r-token'') = Inr ()
   \<and> fst (removeRefreshToken two_users 9) = Inr ()
   \<and> snd (updateRefreshToken two_users 7 9 ''r-token'') = two_users
   \<and> fst (remove two_users 9) = Inl NotFound"
proof -
  have none: "findOneBy_id 9 (table two_users) = None"
    by (simp add: findOneBy_id_def two_users_def alice_def bob_def)
  show ?thesis
    using none refresh_token_calls_never_fail [of two_users 7 9 "''r-token''"] by simp
qed

end
